theory Spec2Isabelle
  imports Main "HOL-Library.Word" "HOL-Library.Sublist"
begin

section \<open>JavaScript values used by index.js\<close>

text \<open>
  A JavaScript string is a sequence of 16-bit code units. String literals of the source
  are written with \<open>js\<close>, which maps each (ASCII) character to its code unit.
\<close>

type_synonym jschar = "16 word"
type_synonym jsstring = "jschar list"

definition js :: "string \<Rightarrow> jsstring" where
  "js s = map of_char s"

definition NL :: jschar where
  "NL = 0x0A"

text \<open>
  The values that \<open>getEnv\<close> handles: nothing (\<open>undefined\<close>), a string (a variable of
  the environment, \<open>DEFAULT_AWS_REGION\<close>), an integer number (\<open>DEFAULT_SFTP_PORT\<close>),
  or the function or object that \<open>process.env\<close> inherits from its prototype under a
  name (\<open>process.env[ 'toString' ]\<close> is \<open>Object.prototype.toString\<close> when no such
  variable is set). Functions and objects are truthy.
\<close>

datatype jsval = Undefined | Str jsstring | Num int | Inherited jsstring

fun truthy :: "jsval \<Rightarrow> bool" where
  "truthy Undefined = False"
| "truthy (Str s) = (s \<noteq> [])"
| "truthy (Num n) = (n \<noteq> 0)"
| "truthy (Inherited name) = True"

text \<open>
  A value that is either \<open>undefined\<close> or a string (the old snapshot, an entry of
  \<open>process.env\<close>) is a \<open>jsstring option\<close>; \<open>!v\<close> holds for \<open>undefined\<close> and for
  the empty string.
\<close>

fun truthyStr :: "jsstring option \<Rightarrow> bool" where
  "truthyStr None = False"
| "truthyStr (Some s) = (s \<noteq> [])"

datatype error = Error jsstring

section \<open>Built-in string and array operations\<close>

text \<open>
  \<open>String.prototype.trim\<close> removes leading and trailing code units that are WhiteSpace
  or LineTerminator in ECMAScript: TAB, LF, VT, FF, CR, SP, NBSP, U+1680, U+2000 to U+200A,
  LS, PS, U+202F, U+205F, U+3000 and the BOM.
\<close>

definition isWhiteSpace :: "jschar \<Rightarrow> bool" where
  "isWhiteSpace c \<longleftrightarrow>
     c = 0x09 \<or> c = 0x0A \<or> c = 0x0B \<or> c = 0x0C \<or> c = 0x0D \<or> c = 0x20 \<or> c = 0xA0 \<or>
     c = 0x1680 \<or> (0x2000 \<le> c \<and> c \<le> 0x200A) \<or> c = 0x2028 \<or> c = 0x2029 \<or>
     c = 0x202F \<or> c = 0x205F \<or> c = 0x3000 \<or> c = 0xFEFF"

definition trim :: "jsstring \<Rightarrow> jsstring" where
  "trim s = rev (dropWhile isWhiteSpace (rev (dropWhile isWhiteSpace s)))"

text \<open>
  \<open>s.split(sep)\<close> for a separator of one code unit: scan \<open>s\<close>, collecting the current
  piece in \<open>cur\<close>; every separator closes a piece. The result is never empty
  (\<open>''.split('\n')\<close> is \<open>['']\<close>).
\<close>

fun splitFrom :: "jschar \<Rightarrow> jsstring \<Rightarrow> jsstring \<Rightarrow> jsstring list" where
  "splitFrom sep cur [] = [cur]"
| "splitFrom sep cur (c # cs) =
     (if c = sep then cur # splitFrom sep [] cs else splitFrom sep (cur @ [c]) cs)"

definition split :: "jschar \<Rightarrow> jsstring \<Rightarrow> jsstring list" where
  "split sep s = splitFrom sep [] s"

text \<open>
  \<open>xs.indexOf(x)\<close>: the index of the first element strictly equal to \<open>x\<close>, or \<open>-1\<close>.
\<close>

fun indexOfFrom :: "int \<Rightarrow> 'a list \<Rightarrow> 'a \<Rightarrow> int" where
  "indexOfFrom k [] x = - 1"
| "indexOfFrom k (y # ys) x = (if y = x then k else indexOfFrom (k + 1) ys x)"

definition indexOf :: "'a list \<Rightarrow> 'a \<Rightarrow> int" where
  "indexOf xs x = indexOfFrom 0 xs x"

text \<open>\<open>xs.join(sep)\<close> for an array of strings.\<close>

fun join :: "jsstring \<Rightarrow> jsstring list \<Rightarrow> jsstring" where
  "join sep [] = []"
| "join sep [x] = x"
| "join sep (x # y # ys) = x @ sep @ join sep (y # ys)"

section \<open>compareLogFiles\<close>

text \<open>
  The guard \<open>!oldContents\<close> is taken by \<open>undefined\<close> and by the empty string. Both
  \<open>.filter( () => true )\<close> calls keep every element. \<open>log\<close> only prints progress
  lines (\<open>SILENT\<close> is false) and is not modelled here or below.
\<close>

definition compareLogFiles :: "jsstring option \<Rightarrow> jsstring \<Rightarrow> jsstring" where
  "compareLogFiles oldContents newContents =
     (case oldContents of
        None \<Rightarrow> []
      | Some oldText \<Rightarrow>
          if oldText = [] then []
          else
            (let oldLines = filter (\<lambda>_. True) (split NL oldText);
                 newLines = filter (\<lambda>_. True) (split NL newContents);
                 difference = filter (\<lambda>line. 0 > indexOf oldLines line) newLines
             in trim (join [NL] difference)))"

section \<open>getEnv\<close>

text \<open>
  \<open>process.env\<close> is an object: its own properties are the variables that are set, each
  a string, and a read of any other name goes on to the prototype chain. The record holds
  the variables and what the prototype chain gives for each name (\<open>Undefined\<close> when it
  has no such property).
\<close>

record processEnv =
  variables :: "jsstring \<Rightarrow> jsstring option"
  inherited :: "jsstring \<Rightarrow> jsval"

text \<open>The property read \<open>process.env[ envName ]\<close>.\<close>

definition readEnv :: "processEnv \<Rightarrow> jsstring \<Rightarrow> jsval" where
  "readEnv penv envName =
     (case variables penv envName of Some v \<Rightarrow> Str v | None \<Rightarrow> inherited penv envName)"

text \<open>\<open>getEnv\<close> either returns a value or throws (\<open>Inl\<close>).\<close>

definition getEnv :: "processEnv \<Rightarrow> jsstring \<Rightarrow> jsval \<Rightarrow> error + jsval" where
  "getEnv penv envName defaultValue =
     (if truthy (readEnv penv envName) then Inr (readEnv penv envName)
      else if truthy defaultValue then Inr defaultValue
      else Inl (Error (js ''Please set '' @ envName @ js ''.'')))"

text \<open>
  The prototype of \<open>process.env\<close> in Node.js is \<open>Object.prototype\<close>, with these
  properties.
\<close>

definition objectPrototype :: "jsstring \<Rightarrow> jsval" where
  "objectPrototype name =
     (if name \<in> set (map js
          [''constructor'', ''hasOwnProperty'', ''isPrototypeOf'', ''propertyIsEnumerable'',
           ''toLocaleString'', ''toString'', ''valueOf'', ''__proto__'',
           ''__defineGetter__'', ''__defineSetter__'', ''__lookupGetter__'', ''__lookupSetter__''])
      then Inherited name else Undefined)"

definition nodeEnv :: "(jsstring \<Rightarrow> jsstring option) \<Rightarrow> processEnv" where
  "nodeEnv vars = \<lparr> variables = vars, inherited = objectPrototype \<rparr>"

section \<open>Configuration and the outside world\<close>

text \<open>
  The three objects that \<open>getConfig\<close> builds from the environment. Fields that are
  constants of the source (\<open>debug\<close>, \<open>algorithms\<close>, \<open>colorize\<close>) are left out. The
  port is the environment's string or the number \<open>DEFAULT_SFTP_PORT\<close>.
\<close>

record sftpConfig =
  sftpHost :: jsstring
  sftpPort :: jsval
  username :: jsstring
  password :: jsstring
  sftpPath :: jsstring

record s3Config =
  bucket :: jsstring
  region :: jsstring
  s3Path :: jsstring

record papertrailConfig =
  papertrailHost :: jsstring
  papertrailPort :: jsstring
  hostname :: jsstring
  program :: jsstring

record config =
  sftp :: sftpConfig
  s3 :: s3Config
  papertrail :: papertrailConfig

text \<open>
  Time is a logical clock. A promise either never settles (\<open>None\<close>) or settles at some
  time, fulfilled with a value or rejected with an error.
\<close>

type_synonym time = nat

datatype 'a settlement = Fulfilled 'a | Rejected error

type_synonym 'a promise = "(time \<times> 'a settlement) option"

text \<open>
  The requests that the program makes of its collaborators, each recorded with the time
  at which it is made: \<open>s3.getObject\<close> (Bucket, Key), \<open>console.warn\<close> (with the error
  it reports), \<open>kms.decrypt\<close>, \<open>client.connect\<close>, \<open>client.get\<close>, \<open>client.end\<close>,
  \<open>s3.putObject\<close> (Body, Bucket, Key), the creation of the Papertrail transport,
  \<open>logger.info\<close> and \<open>logger.close\<close>.
\<close>

datatype effect =
    S3GetObject jsstring jsstring
  | ConsoleWarn error
  | KmsDecrypt jsstring
  | SftpConnect sftpConfig
  | SftpGet jsstring
  | SftpEnd
  | S3PutObject jsstring jsstring jsstring
  | PapertrailTransport papertrailConfig
  | LoggerInfo jsstring
  | LoggerClose

type_synonym 'a async = "(time \<times> effect) list \<times> 'a promise"

text \<open>
  The Papertrail transport emits \<open>'error'\<close> and \<open>'connect'\<close> events; the handlers are
  attached with \<open>on\<close>, so every event is handled.
\<close>

datatype ptEvent = PtError error | PtConnect

text \<open>
  What the collaborators answer during one run. Every request is made at most once in a
  run, so the answer is fixed per kind of request: \<open>None\<close> when the callback is never
  invoked, otherwise the delay after which it is invoked, with an error or a result. The
  read stream of \<open>client.get\<close> delivers its chunks and then, after a delay, \<open>'end'\<close>
  (\<open>None\<close>: \<open>'end'\<close> is never emitted, as when the transfer fails after the stream
  has been delivered). The Papertrail events carry the delay since the previous event.
\<close>

record world =
  isLambda :: bool
  s3GetObject :: "(time \<times> (error + jsstring)) option"
  kmsDecrypt :: "(time \<times> (error + jsstring)) option"
  sftpConnect :: "(time \<times> (error + unit)) option"
  sftpGet :: "(time \<times> (error + jsstring list \<times> time option)) option"
  s3PutObject :: "(time \<times> (error + unit)) option"
  papertrailEvents :: "(time \<times> ptEvent) list"

section \<open>Promise combinators\<close>

text \<open>
  A request made at time \<open>t\<close> whose callback does
  \<open>if ( error ) reject( error ); else resolve( value )\<close>.
\<close>

fun settleAfter :: "time \<Rightarrow> (time \<times> (error + 'a)) option \<Rightarrow> 'a promise" where
  "settleAfter t None = None"
| "settleAfter t (Some (d, Inl err)) = Some (t + d, Rejected err)"
| "settleAfter t (Some (d, Inr v)) = Some (t + d, Fulfilled v)"

text \<open>
  \<open>p.then( f )\<close>: \<open>f\<close> runs when \<open>p\<close> is fulfilled, at that time; a rejection is
  passed on.
\<close>

fun bindP :: "'a async \<Rightarrow> (time \<Rightarrow> 'a \<Rightarrow> 'b async) \<Rightarrow> 'b async" where
  "bindP (effs, None) f = (effs, None)"
| "bindP (effs, Some (t, Rejected err)) f = (effs, Some (t, Rejected err))"
| "bindP (effs, Some (t, Fulfilled v)) f = (case f t v of (effs', q) \<Rightarrow> (effs @ effs', q))"

fun mapP :: "('a \<Rightarrow> 'b) \<Rightarrow> 'a promise \<Rightarrow> 'b promise" where
  "mapP f None = None"
| "mapP f (Some (t, Rejected err)) = Some (t, Rejected err)"
| "mapP f (Some (t, Fulfilled v)) = Some (t, Fulfilled (f v))"

text \<open>
  \<open>Promise.all\<close> of two promises: rejected as soon as one of them is rejected, with that
  error (the earlier rejection; the first of the array when both are rejected at the same
  time); fulfilled with both values once both are fulfilled; otherwise never settled.
\<close>

fun promiseAll2 :: "'a promise \<Rightarrow> 'b promise \<Rightarrow> ('a \<times> 'b) promise" where
  "promiseAll2 (Some (ta, Rejected ea)) (Some (tb, Rejected eb)) =
     (if ta \<le> tb then Some (ta, Rejected ea) else Some (tb, Rejected eb))"
| "promiseAll2 (Some (ta, Rejected ea)) (Some (tb, Fulfilled b)) = Some (ta, Rejected ea)"
| "promiseAll2 (Some (ta, Rejected ea)) None = Some (ta, Rejected ea)"
| "promiseAll2 (Some (ta, Fulfilled a)) (Some (tb, Rejected eb)) = Some (tb, Rejected eb)"
| "promiseAll2 None (Some (tb, Rejected eb)) = Some (tb, Rejected eb)"
| "promiseAll2 (Some (ta, Fulfilled a)) (Some (tb, Fulfilled b)) = Some (max ta tb, Fulfilled (a, b))"
| "promiseAll2 (Some (ta, Fulfilled a)) None = None"
| "promiseAll2 None (Some (tb, Fulfilled b)) = None"
| "promiseAll2 None None = None"

text \<open>
  \<open>Promise.all\<close> of an array of promises, called at time \<open>t\<close> with promises that
  settle at \<open>t\<close> or later; for the empty array it is fulfilled at once.
\<close>

fun promiseAll :: "time \<Rightarrow> 'a promise list \<Rightarrow> 'a list promise" where
  "promiseAll t [] = Some (t, Fulfilled [])"
| "promiseAll t (p # ps) = mapP (\<lambda>(x, xs). x # xs) (promiseAll2 p (promiseAll t ps))"

section \<open>The operations of index.js\<close>

text \<open>
  \<open>decrypt\<close>: outside AWS Lambda the string is returned as it is, otherwise
  \<open>kms.decrypt\<close> is called and its plaintext returned.
\<close>

definition decrypt :: "world \<Rightarrow> time \<Rightarrow> jsstring \<Rightarrow> jsstring async" where
  "decrypt w t encrypted =
     (if \<not> isLambda w then ([], Some (t, Fulfilled encrypted))
      else ([(t, KmsDecrypt encrypted)], settleAfter t (kmsDecrypt w)))"

definition clientConnect :: "world \<Rightarrow> time \<Rightarrow> sftpConfig \<Rightarrow> unit async" where
  "clientConnect w t cfg = ([(t, SftpConnect cfg)], settleAfter t (sftpConnect w))"

definition clientGet :: "world \<Rightarrow> time \<Rightarrow> jsstring \<Rightarrow> (jsstring list \<times> time option) async" where
  "clientGet w t remotePath = ([(t, SftpGet remotePath)], settleAfter t (sftpGet w))"

text \<open>
  The handlers of the stream: \<open>'data'\<close> collects the chunks, \<open>'end'\<close> joins and trims
  them, ends the client and resolves. No other event of the stream is handled.
\<close>

fun onStream :: "time \<Rightarrow> jsstring list \<times> time option \<Rightarrow> jsstring async" where
  "onStream t (chunks, None) = ([], None)"
| "onStream t (chunks, Some d) =
     ([(t + d, SftpEnd)], Some (t + d, Fulfilled (trim (join [] chunks))))"

text \<open>
  \<open>getLogFileLatest\<close>: decrypt the password, store it in the configuration, connect,
  get the file, read the stream. An error of the chain rejects the promise.
\<close>

definition getLogFileLatest :: "world \<Rightarrow> time \<Rightarrow> sftpConfig \<Rightarrow> jsstring async" where
  "getLogFileLatest w t cfg =
     bindP (decrypt w t (password cfg)) (\<lambda>t1 decrypted.
     bindP (clientConnect w t1 (cfg\<lparr>password := decrypted\<rparr>)) (\<lambda>t2 _.
     bindP (clientGet w t2 (sftpPath cfg)) (\<lambda>t3 stream.
       onStream t3 stream)))"

text \<open>
  \<open>getLogFileStore\<close>: the executor is given \<open>resolve\<close> only. On an error of
  \<open>s3.getObject\<close> it warns and resolves with \<open>undefined\<close>; otherwise it resolves with
  the decoded body. The module-level client \<open>s3\<close> is created on first use without any
  request being made, and is not represented.
\<close>

fun getLogFileStore :: "world \<Rightarrow> time \<Rightarrow> s3Config \<Rightarrow> jsstring option async" where
  "getLogFileStore w t cfg =
     (case s3GetObject w of
        None \<Rightarrow> ([(t, S3GetObject (bucket cfg) (s3Path cfg))], None)
      | Some (d, Inl err) \<Rightarrow>
          ([(t, S3GetObject (bucket cfg) (s3Path cfg)), (t + d, ConsoleWarn err)],
           Some (t + d, Fulfilled None))
      | Some (d, Inr body) \<Rightarrow>
          ([(t, S3GetObject (bucket cfg) (s3Path cfg))], Some (t + d, Fulfilled (Some body))))"

definition saveToStore :: "world \<Rightarrow> time \<Rightarrow> jsstring \<Rightarrow> s3Config \<Rightarrow> unit async" where
  "saveToStore w t contents cfg =
     ([(t, S3PutObject contents (bucket cfg) (s3Path cfg))], settleAfter t (s3PutObject w))"

text \<open>
  \<open>sendToPapertrail\<close>: the transport is created at once. Every \<open>'connect'\<close> event logs
  the lines and closes the logger; the promise is settled by the first event, rejected by
  \<open>'error'\<close> and fulfilled by \<open>'connect'\<close>.
\<close>

fun onPapertrail :: "time \<Rightarrow> jsstring list \<Rightarrow> (time \<times> ptEvent) list \<Rightarrow> (time \<times> effect) list" where
  "onPapertrail t lines [] = []"
| "onPapertrail t lines ((d, PtError err) # evs) = onPapertrail (t + d) lines evs"
| "onPapertrail t lines ((d, PtConnect) # evs) =
     map (\<lambda>line. (t + d, LoggerInfo line)) lines @ [(t + d, LoggerClose)]
       @ onPapertrail (t + d) lines evs"

fun firstEvent :: "time \<Rightarrow> (time \<times> ptEvent) list \<Rightarrow> unit promise" where
  "firstEvent t [] = None"
| "firstEvent t ((d, PtError err) # evs) = Some (t + d, Rejected err)"
| "firstEvent t ((d, PtConnect) # evs) = Some (t + d, Fulfilled ())"

definition sendToPapertrail :: "world \<Rightarrow> time \<Rightarrow> jsstring \<Rightarrow> papertrailConfig \<Rightarrow> unit async" where
  "sendToPapertrail w t logLines cfg =
     ((t, PapertrailTransport cfg) # onPapertrail t (split NL logLines) (papertrailEvents w),
      firstEvent t (papertrailEvents w))"

section \<open>exports.handler\<close>

text \<open>
  What one invocation does, once \<open>getConfig\<close> has returned \<open>config\<close>: the requests made
  (in the order of the program text, each with its time), the two arrays of promises
  \<open>getResult\<close> and \<open>sendResult\<close>, and the invocation of \<open>callback\<close>, if any, with its
  time: \<open>callback( null, result )\<close> or \<open>callback( error )\<close>.
\<close>

datatype callbackArgs = Success "unit list" | Failure error

record run =
  effects :: "(time \<times> effect) list"
  getResult :: "jsstring option promise \<times> jsstring promise"
  sendResult :: "unit promise list"
  callback :: "(time \<times> callbackArgs) option"

fun onSettled :: "unit list promise \<Rightarrow> (time \<times> callbackArgs) option" where
  "onSettled None = None"
| "onSettled (Some (t, Fulfilled result)) = Some (t, Success result)"
| "onSettled (Some (t, Rejected err)) = Some (t, Failure err)"

text \<open>
  The second stage, the function passed to the first \<open>then\<close>: it runs at time \<open>t\<close> with
  the two snapshots and returns the operations it has started.
\<close>

definition decide :: "world \<Rightarrow> config \<Rightarrow> time \<Rightarrow> jsstring option \<Rightarrow> jsstring \<Rightarrow> unit async list" where
  "decide w cfg t dataOld dataNew =
     (let newLogLines = compareLogFiles dataOld dataNew
      in (if newLogLines \<noteq> [] \<or> \<not> truthyStr dataOld
          then [saveToStore w t dataNew (s3 cfg)] else [])
       @ (if newLogLines \<noteq> []
          then [sendToPapertrail w t newLogLines (papertrail cfg)] else []))"

definition handler :: "world \<Rightarrow> config \<Rightarrow> run" where
  "handler w cfg =
     (let (effsOld, pOld) = getLogFileStore w 0 (s3 cfg);
          (effsNew, pNew) = getLogFileLatest w 0 (sftp cfg);
          (started, pDone) =
            (case promiseAll2 pOld pNew of
               None \<Rightarrow> ([], None)
             | Some (t, Rejected err) \<Rightarrow> ([], Some (t, Rejected err))
             | Some (t, Fulfilled (dataOld, dataNew)) \<Rightarrow>
                 (let started = decide w cfg t dataOld dataNew
                  in (started, promiseAll t (map snd started))))
      in \<lparr> effects = effsOld @ effsNew @ concat (map fst started),
           getResult = (pOld, pNew),
           sendResult = map snd started,
           callback = onSettled pDone \<rparr>)"

text \<open>
  The snapshot store, a map from bucket and key to the stored body: only a successful
  \<open>s3.putObject\<close> changes it.
\<close>

type_synonym store = "jsstring \<times> jsstring \<Rightarrow> jsstring option"

fun applyEffect :: "world \<Rightarrow> store \<Rightarrow> time \<times> effect \<Rightarrow> store" where
  "applyEffect w st (t, S3PutObject body b k) =
     (case s3PutObject w of Some (d, Inr u) \<Rightarrow> st((b, k) \<mapsto> body) | _ \<Rightarrow> st)"
| "applyEffect w st (t, other) = st"

definition storeAfter :: "world \<Rightarrow> run \<Rightarrow> store \<Rightarrow> store" where
  "storeAfter w r st = foldl (applyEffect w) st (effects r)"

text \<open>The requests of one kind among the requests of a run.\<close>

fun isPut :: "effect \<Rightarrow> bool" where
  "isPut (S3PutObject body b k) = True"
| "isPut other = False"

fun isTransport :: "effect \<Rightarrow> bool" where
  "isTransport (PapertrailTransport cfg) = True"
| "isTransport other = False"

fun isGetObject :: "effect \<Rightarrow> bool" where
  "isGetObject (S3GetObject b k) = True"
| "isGetObject other = False"

fun isSftp :: "effect \<Rightarrow> bool" where
  "isSftp (SftpConnect cfg) = True"
| "isSftp (SftpGet remotePath) = True"
| "isSftp SftpEnd = True"
| "isSftp other = False"

definition requests :: "(effect \<Rightarrow> bool) \<Rightarrow> run \<Rightarrow> (time \<times> effect) list" where
  "requests kind r = filter (\<lambda>(t, e). kind e) (effects r)"

section \<open>Example runs\<close>

text \<open>
  Scenario A of the specification: the stored snapshot is \<open>a, b, c\<close>, the remote file
  holds \<open>a, b, c, d\<close> and arrives in two chunks; every collaborator answers without
  error. The other worlds change one answer each.
\<close>

definition exampleConfig :: config where
  "exampleConfig =
     \<lparr> sftp = \<lparr> sftpHost = js ''sftp.example.com'', sftpPort = Num 22, username = js ''logs'',
                password = js ''secret'', sftpPath = js ''/var/log/app.log'' \<rparr>,
       s3 = \<lparr> bucket = js ''snapshots'', region = js ''us-east-1'',
              s3Path = js ''sftp.example.com//var/log/app.log'' \<rparr>,
       papertrail = \<lparr> papertrailHost = js ''logs.papertrailapp.com'', papertrailPort = js ''12345'',
                      hostname = js ''sftp.example.com'', program = js ''app'' \<rparr> \<rparr>"

definition scenarioA :: world where
  "scenarioA =
     \<lparr> isLambda = False,
       s3GetObject = Some (1, Inr (js ''a\<newline>b\<newline>c'')),
       kmsDecrypt = None,
       sftpConnect = Some (1, Inr ()),
       sftpGet = Some (1, Inr ([js ''a\<newline>b\<newline>'', js ''c\<newline>d\<newline>''], Some 1)),
       s3PutObject = Some (2, Inr ()),
       papertrailEvents = [(1, PtConnect)] \<rparr>"

definition emptySnapshot :: world where
  "emptySnapshot = scenarioA\<lparr>s3GetObject := Some (1, Inr [])\<rparr>"

definition saveFails :: world where
  "saveFails = scenarioA\<lparr>s3PutObject := Some (1, Inl (Error (js ''AccessDenied''))),
                          papertrailEvents := [(5, PtConnect)]\<rparr>"

definition decryptFails :: world where
  "decryptFails = scenarioA\<lparr>isLambda := True,
                             kmsDecrypt := Some (2, Inl (Error (js ''InvalidCiphertextException'')))\<rparr>"

definition getFails :: world where
  "getFails = scenarioA\<lparr>sftpGet := Some (1, Inl (Error (js ''No such file'')))\<rparr>"

definition storeReadFails :: world where
  "storeReadFails = scenarioA\<lparr>s3GetObject := Some (1, Inl (Error (js ''NoSuchKey'')))\<rparr>"

text \<open>
  The transfer fails after \<open>client.get\<close> has delivered the stream: one chunk arrives
  and \<open>'end'\<close> is never emitted.
\<close>

definition transferFails :: world where
  "transferFails = scenarioA\<lparr>sftpGet := Some (1, Inr ([js ''a\<newline>b\<newline>''], None))\<rparr>"

section \<open>Properties of the built-in operations\<close>

lemma splitFrom_nonempty: "splitFrom sep cur s \<noteq> []"
  by (induction s arbitrary: cur) auto

lemma join_splitFrom: "join [sep] (splitFrom sep cur s) = cur @ s"
proof (induction s arbitrary: cur)
  case Nil
  then show ?case by simp
next
  case (Cons c cs)
  show ?case
  proof (cases "c = sep")
    case True
    obtain l ls where ls: "splitFrom sep [] cs = l # ls"
      using splitFrom_nonempty [of sep "[]" cs] by (cases "splitFrom sep [] cs") auto
    have "join [sep] (l # ls) = cs"
      using Cons.IH [of "[]"] ls by simp
    then show ?thesis
      using True ls by simp
  next
    case False
    then show ?thesis
      using Cons.IH [of "cur @ [c]"] by simp
  qed
qed

lemma join_split: "join [sep] (split sep s) = s"
  by (simp add: split_def join_splitFrom)

lemma splitFrom_no_sep:
  "sep \<notin> set cur \<Longrightarrow> l \<in> set (splitFrom sep cur s) \<Longrightarrow> sep \<notin> set l"
proof (induction s arbitrary: cur)
  case Nil
  then show ?case by simp
next
  case (Cons c cs)
  show ?case
  proof (cases "c = sep")
    case True
    with Cons.prems have "l = cur \<or> l \<in> set (splitFrom sep [] cs)" by simp
    then show ?thesis
    proof
      assume "l = cur"
      then show ?thesis using Cons.prems(1) by simp
    next
      assume "l \<in> set (splitFrom sep [] cs)"
      then show ?thesis by (intro Cons.IH [of "[]"]) simp_all
    qed
  next
    case False
    with Cons.prems have "l \<in> set (splitFrom sep (cur @ [c]) cs)" by simp
    moreover have "sep \<notin> set (cur @ [c])"
      using False Cons.prems(1) by auto
    ultimately show ?thesis
      by (rule Cons.IH [rotated])
  qed
qed

lemma split_no_sep: "l \<in> set (split sep s) \<Longrightarrow> sep \<notin> set l"
  unfolding split_def using splitFrom_no_sep [of sep "[]"] by simp

lemma indexOfFrom_found: "0 \<le> k \<Longrightarrow> x \<in> set ys \<Longrightarrow> 0 \<le> indexOfFrom k ys x"
proof (induction ys arbitrary: k)
  case Nil
  then show ?case by simp
next
  case (Cons y ys)
  show ?case
  proof (cases "y = x")
    case True
    then show ?thesis using Cons.prems(1) by simp
  next
    case False
    then have "x \<in> set ys" using Cons.prems(2) by simp
    moreover have "0 \<le> k + 1" using Cons.prems(1) by simp
    ultimately have "0 \<le> indexOfFrom (k + 1) ys x"
      by (rule Cons.IH [rotated])
    then show ?thesis using False by simp
  qed
qed

lemma indexOfFrom_missing: "x \<notin> set ys \<Longrightarrow> indexOfFrom k ys x = - 1"
  by (induction ys arbitrary: k) auto

lemma indexOf_negative_iff: "0 > indexOf ys x \<longleftrightarrow> x \<notin> set ys"
proof
  assume neg: "0 > indexOf ys x"
  show "x \<notin> set ys"
  proof
    assume "x \<in> set ys"
    then have "0 \<le> indexOf ys x"
      unfolding indexOf_def by (intro indexOfFrom_found) simp_all
    with neg show False by simp
  qed
next
  assume "x \<notin> set ys"
  then show "0 > indexOf ys x"
    by (simp add: indexOf_def indexOfFrom_missing)
qed

lemma count_list_filter:
  "count_list (filter P xs) x = (if P x then count_list xs x else 0)"
  by (induction xs) auto

lemma compareLogFiles_filter:
  "oldText \<noteq> [] \<Longrightarrow>
   compareLogFiles (Some oldText) newContents =
     trim (join [NL] (filter (\<lambda>line. line \<notin> set (split NL oldText)) (split NL newContents)))"
  by (simp add: compareLogFiles_def indexOf_negative_iff)

text \<open>
  What \<open>trim\<close> removes is whitespace at both ends, and what it leaves neither
  starts nor ends with whitespace.
\<close>

lemma rev_dropWhile_takeWhile:
  "rev (dropWhile P (rev u)) @ rev (takeWhile P (rev u)) = u"
proof -
  have "rev (takeWhile P (rev u) @ dropWhile P (rev u)) = rev (rev u)"
    by (simp only: takeWhile_dropWhile_id)
  then show ?thesis
    by (simp only: rev_append rev_rev_ident)
qed

lemma trim_decompose:
  "\<exists>pre post. s = pre @ trim s @ post \<and>
     (\<forall>c\<in>set pre. isWhiteSpace c) \<and> (\<forall>c\<in>set post. isWhiteSpace c)"
proof -
  let ?u = "dropWhile isWhiteSpace s"
  let ?pre = "takeWhile isWhiteSpace s"
  let ?post = "rev (takeWhile isWhiteSpace (rev ?u))"
  have u: "?u = trim s @ ?post"
    unfolding trim_def by (rule rev_dropWhile_takeWhile [symmetric])
  have "s = ?pre @ ?u"
    by simp
  with u have "s = ?pre @ trim s @ ?post"
    by simp
  moreover have "\<forall>c\<in>set ?pre. isWhiteSpace c"
    by (auto dest: set_takeWhileD)
  moreover have "\<forall>c\<in>set ?post. isWhiteSpace c"
    by (auto dest: set_takeWhileD)
  ultimately show ?thesis
    by blast
qed

lemma trim_first:
  assumes "trim s \<noteq> []"
  shows "\<not> isWhiteSpace (hd (trim s))"
proof -
  let ?u = "dropWhile isWhiteSpace s"
  have u: "?u = trim s @ rev (takeWhile isWhiteSpace (rev ?u))"
    unfolding trim_def by (rule rev_dropWhile_takeWhile [symmetric])
  with assms have ne: "?u \<noteq> []"
    by (metis append_is_Nil_conv)
  from u assms have "hd ?u = hd (trim s)"
    by (metis hd_append2)
  moreover from ne have "\<not> isWhiteSpace (hd ?u)"
    by (rule hd_dropWhile)
  ultimately show ?thesis
    by simp
qed

lemma trim_last:
  assumes "trim s \<noteq> []"
  shows "\<not> isWhiteSpace (last (trim s))"
proof -
  let ?v = "dropWhile isWhiteSpace (rev (dropWhile isWhiteSpace s))"
  from assms have ne: "?v \<noteq> []"
    by (simp add: trim_def)
  then have "\<not> isWhiteSpace (hd ?v)"
    by (rule hd_dropWhile)
  moreover from ne have "last (rev ?v) = hd ?v"
    by (simp add: last_rev)
  ultimately show ?thesis
    by (simp add: trim_def)
qed

text \<open>Reads of \<open>process.env\<close>.\<close>

lemma readEnv_own:
  "inherited penv envName = Undefined \<Longrightarrow>
   truthy (readEnv penv envName) = truthyStr (variables penv envName)"
  by (cases "variables penv envName") (simp_all add: readEnv_def)

lemma not_inherited_STP:
  "objectPrototype (js ''STP_SFTP_PORT'') = Undefined"
  "objectPrototype (js ''STP_SFTP_HOST'') = Undefined"
  by (simp_all add: objectPrototype_def js_def)

lemma inherited_toString:
  "objectPrototype (js ''toString'') = Inherited (js ''toString'')"
  by (simp add: objectPrototype_def js_def)

section \<open>Properties of the operations\<close>

text \<open>
  \<open>getLogFileStore\<close> is never rejected, and each operation makes requests of its own
  kinds only.
\<close>

lemma getLogFileStore_never_rejected:
  "snd (getLogFileStore w t c) \<noteq> Some (t', Rejected err)"
  by (simp split: option.splits sum.splits prod.splits)

lemma getLogFileStore_outcome:
  "snd (getLogFileStore w t c) = None \<or> (\<exists>t' v. snd (getLogFileStore w t c) = Some (t', Fulfilled v))"
  by (simp split: option.splits sum.splits prod.splits)

lemma getLogFileStore_error:
  "s3GetObject w = Some (d, Inl err) \<Longrightarrow>
   getLogFileStore w t c =
     ([(t, S3GetObject (bucket c) (s3Path c)), (t + d, ConsoleWarn err)],
      Some (t + d, Fulfilled None))"
  by simp

lemma promiseAll2_rejected_right:
  "p = None \<or> (\<exists>t' v. p = Some (t', Fulfilled v)) \<Longrightarrow>
   promiseAll2 p (Some (t, Rejected err)) = Some (t, Rejected err)"
  by auto

lemma no_kind_getLogFileStore:
  "filter (\<lambda>(t, e). isPut e) (fst (getLogFileStore w t c)) = []"
  "filter (\<lambda>(t, e). isTransport e) (fst (getLogFileStore w t c)) = []"
  "filter (\<lambda>(t, e). isSftp e) (fst (getLogFileStore w t c)) = []"
  by (simp_all split: option.splits sum.splits prod.splits)

lemma isGetObject_getLogFileStore:
  "filter (\<lambda>(t, e). isGetObject e) (fst (getLogFileStore w t c)) = [(t, S3GetObject (bucket c) (s3Path c))]"
  by (simp split: option.splits sum.splits prod.splits)

lemma bindP_fst_filter:
  "filter P (fst m) = [] \<Longrightarrow> (\<And>t v. filter P (fst (f t v)) = []) \<Longrightarrow>
   filter P (fst (bindP m f)) = []"
proof (cases "(m, f)" rule: bindP.cases)
  case (3 effs t v g)
  obtain effs' q where fv: "f t v = (effs', q)"
    by (cases "f t v")
  assume "filter P (fst m) = []" and "\<And>t v. filter P (fst (f t v)) = []"
  then have "filter P effs = []" and "filter P (fst (f t v)) = []"
    using 3 by simp_all
  then show ?thesis
    using 3 fv by simp
qed simp_all

lemma no_kind_getLogFileLatest:
  "filter (\<lambda>(t, e). isPut e) (fst (getLogFileLatest w t c)) = []"
  "filter (\<lambda>(t, e). isTransport e) (fst (getLogFileLatest w t c)) = []"
proof -
  have s: "filter (\<lambda>(t, e). isPut e) (fst (onStream t3 stream)) = []"
    "filter (\<lambda>(t, e). isTransport e) (fst (onStream t3 stream)) = []" for t3 stream
    by (cases "(t3, stream)" rule: onStream.cases; simp)+
  show "filter (\<lambda>(t, e). isPut e) (fst (getLogFileLatest w t c)) = []"
    unfolding getLogFileLatest_def
    by (intro bindP_fst_filter) (simp_all add: decrypt_def clientConnect_def clientGet_def s)
  show "filter (\<lambda>(t, e). isTransport e) (fst (getLogFileLatest w t c)) = []"
    unfolding getLogFileLatest_def
    by (intro bindP_fst_filter) (simp_all add: decrypt_def clientConnect_def clientGet_def s)
qed

lemma latest_decrypt_fails:
  assumes "isLambda w" and "kmsDecrypt w = Some (d, Inl err)"
  shows "getLogFileLatest w t c = ([(t, KmsDecrypt (password c))], Some (t + d, Rejected err))"
  using assms by (simp add: getLogFileLatest_def decrypt_def)

lemma onPapertrail_kinds:
  "filter (\<lambda>(t, e). isPut e) (onPapertrail t ls evs) = []"
  "filter (\<lambda>(t, e). isTransport e) (onPapertrail t ls evs) = []"
  by (induction t ls evs rule: onPapertrail.induct) (simp_all add: filter_empty_conv)

lemma decide_puts:
  "filter (\<lambda>(t, e). isPut e) (concat (map fst (decide w cfg t dataOld dataNew))) =
     (if compareLogFiles dataOld dataNew \<noteq> [] \<or> \<not> truthyStr dataOld
      then [(t, S3PutObject dataNew (bucket (s3 cfg)) (s3Path (s3 cfg)))] else [])"
  by (simp add: decide_def Let_def saveToStore_def sendToPapertrail_def onPapertrail_kinds)

lemma decide_transports:
  "filter (\<lambda>(t, e). isTransport e) (concat (map fst (decide w cfg t dataOld dataNew))) =
     (if compareLogFiles dataOld dataNew \<noteq> []
      then [(t, PapertrailTransport (papertrail cfg))] else [])"
  by (simp add: decide_def Let_def saveToStore_def sendToPapertrail_def onPapertrail_kinds)

text \<open>
  The three ways the first stage of \<open>handler\<close> can end: both fetches fulfilled, one
  rejected, or never settled.
\<close>

lemma handler_stage2:
  assumes "promiseAll2 (snd (getLogFileStore w 0 (s3 cfg))) (snd (getLogFileLatest w 0 (sftp cfg)))
             = Some (t, Fulfilled (dataOld, dataNew))"
  shows "handler w cfg =
      \<lparr> effects = fst (getLogFileStore w 0 (s3 cfg)) @ fst (getLogFileLatest w 0 (sftp cfg))
                    @ concat (map fst (decide w cfg t dataOld dataNew)),
        getResult = (snd (getLogFileStore w 0 (s3 cfg)), snd (getLogFileLatest w 0 (sftp cfg))),
        sendResult = map snd (decide w cfg t dataOld dataNew),
        callback = onSettled (promiseAll t (map snd (decide w cfg t dataOld dataNew))) \<rparr>"
  using assms unfolding handler_def Let_def
  by (simp add: case_prod_beta del: getLogFileStore.simps)

lemma handler_stage1_rejected:
  assumes "promiseAll2 (snd (getLogFileStore w 0 (s3 cfg))) (snd (getLogFileLatest w 0 (sftp cfg)))
             = Some (t, Rejected err)"
  shows "handler w cfg =
      \<lparr> effects = fst (getLogFileStore w 0 (s3 cfg)) @ fst (getLogFileLatest w 0 (sftp cfg)),
        getResult = (snd (getLogFileStore w 0 (s3 cfg)), snd (getLogFileLatest w 0 (sftp cfg))),
        sendResult = [],
        callback = Some (t, Failure err) \<rparr>"
  using assms unfolding handler_def Let_def
  by (simp add: case_prod_beta del: getLogFileStore.simps)

lemma handler_stage1_never:
  assumes "promiseAll2 (snd (getLogFileStore w 0 (s3 cfg))) (snd (getLogFileLatest w 0 (sftp cfg)))
             = None"
  shows "handler w cfg =
      \<lparr> effects = fst (getLogFileStore w 0 (s3 cfg)) @ fst (getLogFileLatest w 0 (sftp cfg)),
        getResult = (snd (getLogFileStore w 0 (s3 cfg)), snd (getLogFileLatest w 0 (sftp cfg))),
        sendResult = [],
        callback = None \<rparr>"
  using assms unfolding handler_def Let_def
  by (simp add: case_prod_beta del: getLogFileStore.simps)

lemma getResult_handler:
  "getResult (handler w cfg) =
     (snd (getLogFileStore w 0 (s3 cfg)), snd (getLogFileLatest w 0 (sftp cfg)))"
  unfolding handler_def Let_def
  by (simp add: case_prod_beta del: getLogFileStore.simps)

lemma sendResult_cases:
  "sendResult (handler w cfg) = [] \<or>
   (\<exists>t dataOld dataNew.
      sendResult (handler w cfg) = map snd (decide w cfg t dataOld dataNew) \<and>
      callback (handler w cfg) = onSettled (promiseAll t (sendResult (handler w cfg))))"
proof (cases "promiseAll2 (snd (getLogFileStore w 0 (s3 cfg))) (snd (getLogFileLatest w 0 (sftp cfg)))")
  case None
  then show ?thesis by (simp add: handler_stage1_never del: getLogFileStore.simps)
next
  case (Some a)
  obtain t s where a: "a = (t, s)" by (cases a)
  show ?thesis
  proof (cases s)
    case (Fulfilled v)
    obtain dataOld dataNew where "v = (dataOld, dataNew)" by (cases v)
    with Some a Fulfilled show ?thesis
      by (simp add: handler_stage2 del: getLogFileStore.simps) blast
  next
    case (Rejected err)
    with Some a show ?thesis
      by (simp add: handler_stage1_rejected del: getLogFileStore.simps)
  qed
qed

lemma requests_isPut_stage2:
  assumes "promiseAll2 (snd (getLogFileStore w 0 (s3 cfg))) (snd (getLogFileLatest w 0 (sftp cfg)))
             = Some (t, Fulfilled (dataOld, dataNew))"
  shows "requests isPut (handler w cfg) =
           (if compareLogFiles dataOld dataNew \<noteq> [] \<or> \<not> truthyStr dataOld
            then [(t, S3PutObject dataNew (bucket (s3 cfg)) (s3Path (s3 cfg)))] else [])"
  unfolding handler_stage2 [OF assms] requests_def
  by (simp add: no_kind_getLogFileStore no_kind_getLogFileLatest decide_puts
      del: getLogFileStore.simps)

lemma requests_isTransport_stage2:
  assumes "promiseAll2 (snd (getLogFileStore w 0 (s3 cfg))) (snd (getLogFileLatest w 0 (sftp cfg)))
             = Some (t, Fulfilled (dataOld, dataNew))"
  shows "requests isTransport (handler w cfg) =
           (if compareLogFiles dataOld dataNew \<noteq> []
            then [(t, PapertrailTransport (papertrail cfg))] else [])"
  unfolding handler_stage2 [OF assms] requests_def
  by (simp add: no_kind_getLogFileStore no_kind_getLogFileLatest decide_transports
      del: getLogFileStore.simps)

lemma promiseAll_pair_rejected:
  assumes "(\<exists>t e. p = Some (t, Rejected e)) \<or> (\<exists>t e. q = Some (t, Rejected e))"
  shows "\<exists>tf err. promiseAll t0 [p, q] = Some (tf, Rejected err) \<and>
           (p = Some (tf, Rejected err) \<or> q = Some (tf, Rejected err)) \<and>
           (\<forall>t e. p = Some (t, Rejected e) \<or> q = Some (t, Rejected e) \<longrightarrow> tf \<le> t)"
proof (cases p)
  case None
  with assms obtain tq eq where q: "q = Some (tq, Rejected eq)" by auto
  show ?thesis unfolding None q by simp
next
  case (Some a)
  obtain tp sp where a: "a = (tp, sp)" by (cases a)
  show ?thesis
  proof (cases q)
    case None
    with assms Some a obtain ep where "sp = Rejected ep" by auto
    then show ?thesis unfolding Some a None by simp
  next
    case (Some b)
    obtain tq sq where b: "b = (tq, sq)" by (cases b)
    show ?thesis
      using assms unfolding \<open>p = Some a\<close> a Some b
      by (cases sp; cases sq) auto
  qed
qed

lemma foldl_applyEffect_no_put:
  "filter (\<lambda>(t, e). isPut e) effs = [] \<Longrightarrow> foldl (applyEffect w) st effs = st"
proof (induction effs arbitrary: st)
  case Nil
  then show ?case by simp
next
  case (Cons x effs)
  obtain t e where x: "x = (t, e)" by (cases x)
  from Cons.prems x have "\<not> isPut e" and rest: "filter (\<lambda>(t, e). isPut e) effs = []"
    by (auto split: if_splits)
  then have "applyEffect w st (t, e) = st"
    by (cases e) simp_all
  then show ?case
    using Cons.IH [OF rest] x by simp
qed

lemma storeAfter_stage2:
  assumes "promiseAll2 (snd (getLogFileStore w 0 (s3 cfg))) (snd (getLogFileLatest w 0 (sftp cfg)))
             = Some (t, Fulfilled (dataOld, dataNew))"
  shows "storeAfter w (handler w cfg) st =
           foldl (applyEffect w) st (concat (map fst (decide w cfg t dataOld dataNew)))"
proof -
  have puts: "filter (\<lambda>(t, e). isPut e)
      (fst (getLogFileStore w 0 (s3 cfg)) @ fst (getLogFileLatest w 0 (sftp cfg))) = []"
    by (simp add: no_kind_getLogFileStore no_kind_getLogFileLatest del: getLogFileStore.simps)
  have "storeAfter w (handler w cfg) st =
      foldl (applyEffect w)
        (foldl (applyEffect w) st
           (fst (getLogFileStore w 0 (s3 cfg)) @ fst (getLogFileLatest w 0 (sftp cfg))))
        (concat (map fst (decide w cfg t dataOld dataNew)))"
    unfolding handler_stage2 [OF assms] storeAfter_def
    by (simp del: getLogFileStore.simps)
  then show ?thesis
    by (simp only: foldl_applyEffect_no_put [OF puts])
qed

text \<open>
  A rejection of \<open>getLogFileLatest\<close> (decryption, connect or get) is reported, and
  nothing is saved or forwarded; while its promise is pending, nothing is reported.
\<close>

lemma fetch_rejection_aborts:
  assumes "snd (getLogFileLatest w 0 (sftp cfg)) = Some (t, Rejected err)"
  shows "callback (handler w cfg) = Some (t, Failure err) \<and>
         sendResult (handler w cfg) = [] \<and>
         effects (handler w cfg) =
           fst (getLogFileStore w 0 (s3 cfg)) @ fst (getLogFileLatest w 0 (sftp cfg)) \<and>
         requests isPut (handler w cfg) = [] \<and>
         requests isTransport (handler w cfg) = [] \<and>
         storeAfter w (handler w cfg) st = st"
proof -
  have p: "promiseAll2 (snd (getLogFileStore w 0 (s3 cfg))) (snd (getLogFileLatest w 0 (sftp cfg)))
             = Some (t, Rejected err)"
    unfolding assms by (rule promiseAll2_rejected_right) (rule getLogFileStore_outcome)
  have puts: "filter (\<lambda>(t, e). isPut e)
      (fst (getLogFileStore w 0 (s3 cfg)) @ fst (getLogFileLatest w 0 (sftp cfg))) = []"
    by (simp add: no_kind_getLogFileStore no_kind_getLogFileLatest del: getLogFileStore.simps)
  show ?thesis
    unfolding handler_stage1_rejected [OF p] requests_def storeAfter_def
    by (simp add: no_kind_getLogFileStore no_kind_getLogFileLatest
        foldl_applyEffect_no_put [OF puts] del: getLogFileStore.simps foldl_append)
qed

lemma promiseAll2_never_right:
  "p = None \<or> (\<exists>t' v. p = Some (t', Fulfilled v)) \<Longrightarrow> promiseAll2 p None = None"
  by auto

lemma fetch_pending_never_reported:
  assumes "snd (getLogFileLatest w 0 (sftp cfg)) = None"
  shows "callback (handler w cfg) = None \<and>
         sendResult (handler w cfg) = [] \<and>
         requests isPut (handler w cfg) = [] \<and>
         requests isTransport (handler w cfg) = []"
proof -
  have p: "promiseAll2 (snd (getLogFileStore w 0 (s3 cfg))) (snd (getLogFileLatest w 0 (sftp cfg)))
             = None"
    unfolding assms by (rule promiseAll2_never_right) (rule getLogFileStore_outcome)
  show ?thesis
    unfolding handler_stage1_never [OF p] requests_def
    by (simp add: no_kind_getLogFileStore no_kind_getLogFileLatest del: getLogFileStore.simps)
qed

lemma stream_without_end_never_settles:
  assumes "\<not> isLambda w" and "sftpConnect w = Some (d1, Inr ())"
    and "sftpGet w = Some (d2, Inr (chunks, None))"
  shows "getLogFileLatest w t c =
           ([(t, SftpConnect c), (t + d1, SftpGet (sftpPath c))], None)"
  using assms by (simp add: getLogFileLatest_def decrypt_def clientConnect_def clientGet_def)

text \<open>
  \<open>client.end\<close> is called exactly in the runs of \<open>getLogFileLatest\<close> that are
  fulfilled: never when the promise is rejected or stays pending.
\<close>

lemma bindP_fulfilled:
  "snd m = Some (t, Fulfilled v) \<Longrightarrow> bindP m f = (fst m @ fst (f t v), snd (f t v))"
  by (cases m) (simp add: case_prod_beta)

lemma bindP_rejected:
  "snd m = Some (t, Rejected err) \<Longrightarrow> bindP m f = (fst m, Some (t, Rejected err))"
  by (cases m) simp

lemma bindP_never:
  "snd m = None \<Longrightarrow> bindP m f = (fst m, None)"
  by (cases m) simp

lemma promise_cases:
  obtains "p = None"
  | t err where "p = Some (t, Rejected err)"
  | t v where "p = Some (t, Fulfilled v)"
proof (cases p)
  case None
  then show ?thesis by (rule that(1))
next
  case (Some a)
  obtain t s where "a = (t, s)" by (cases a)
  with Some show ?thesis
    by (cases s) (auto intro: that)
qed

lemma bindP_end_iff_fulfilled:
  assumes "\<And>t'. (t', SftpEnd) \<notin> set (fst m)"
    and "\<And>t v. (\<exists>t'. (t', SftpEnd) \<in> set (fst (f t v))) \<longleftrightarrow>
           (\<exists>t' x. snd (f t v) = Some (t', Fulfilled x))"
  shows "(\<exists>t'. (t', SftpEnd) \<in> set (fst (bindP m f))) \<longleftrightarrow>
         (\<exists>t' x. snd (bindP m f) = Some (t', Fulfilled x))"
proof (cases "snd m" rule: promise_cases)
  case 1
  then show ?thesis using assms(1) by (simp add: bindP_never)
next
  case (2 t err)
  then show ?thesis using assms(1) by (simp add: bindP_rejected)
next
  case (3 t v)
  then show ?thesis using assms(1) assms(2) [of t v] by (simp add: bindP_fulfilled)
qed

lemma onStream_end_iff_fulfilled:
  "(\<exists>t'. (t', SftpEnd) \<in> set (fst (onStream t s))) \<longleftrightarrow>
   (\<exists>t' contents. snd (onStream t s) = Some (t', Fulfilled contents))"
  by (cases "(t, s)" rule: onStream.cases) auto

lemma getLogFileLatest_end_iff_fulfilled:
  "(\<exists>t'. (t', SftpEnd) \<in> set (fst (getLogFileLatest w t c))) \<longleftrightarrow>
   (\<exists>t' contents. snd (getLogFileLatest w t c) = Some (t', Fulfilled contents))"
  unfolding getLogFileLatest_def
  by (intro bindP_end_iff_fulfilled onStream_end_iff_fulfilled)
     (simp_all add: decrypt_def clientConnect_def clientGet_def)

section \<open>The example runs, evaluated\<close>

lemma contents_A: "trim (js ''a\<newline>b\<newline>'' @ js ''c\<newline>d\<newline>'') = js ''a\<newline>b\<newline>c\<newline>d''"
  by (simp add: js_def trim_def isWhiteSpace_def)

lemma latest_A:
  "isLambda w = False \<Longrightarrow> sftpConnect w = Some (1, Inr ()) \<Longrightarrow>
   sftpGet w = Some (1, Inr ([js ''a\<newline>b\<newline>'', js ''c\<newline>d\<newline>''], Some 1)) \<Longrightarrow>
   getLogFileLatest w 0 c =
     ([(0, SftpConnect c), (1, SftpGet (sftpPath c)), (3, SftpEnd)],
      Some (3, Fulfilled (js ''a\<newline>b\<newline>c\<newline>d'')))"
  by (simp add: getLogFileLatest_def decrypt_def clientConnect_def clientGet_def contents_A)

lemma compare_A: "compareLogFiles (Some (js ''a\<newline>b\<newline>c'')) (js ''a\<newline>b\<newline>c\<newline>d'') = js ''d''"
  by (simp add: compareLogFiles_def js_def split_def NL_def indexOf_def trim_def isWhiteSpace_def)

lemma js_d_nonempty: "js ''d'' \<noteq> []"
  by (simp add: js_def)

lemma split_d: "split NL (js ''d'') = [js ''d'']"
  by (simp add: js_def split_def NL_def)

lemma handler_A:
  "handler scenarioA exampleConfig =
    \<lparr> effects =
        [(0, S3GetObject (js ''snapshots'') (js ''sftp.example.com//var/log/app.log'')),
         (0, SftpConnect (sftp exampleConfig)),
         (1, SftpGet (js ''/var/log/app.log'')),
         (3, SftpEnd),
         (3, S3PutObject (js ''a\<newline>b\<newline>c\<newline>d'') (js ''snapshots'') (js ''sftp.example.com//var/log/app.log'')),
         (3, PapertrailTransport (papertrail exampleConfig)),
         (4, LoggerInfo (js ''d'')),
         (4, LoggerClose)],
      getResult = (Some (1, Fulfilled (Some (js ''a\<newline>b\<newline>c''))), Some (3, Fulfilled (js ''a\<newline>b\<newline>c\<newline>d''))),
      sendResult = [Some (5, Fulfilled ()), Some (4, Fulfilled ())],
      callback = Some (5, Success [(), ()]) \<rparr>"
proof -
  have l: "getLogFileLatest scenarioA 0 (sftp exampleConfig) =
     ([(0, SftpConnect (sftp exampleConfig)), (1, SftpGet (sftpPath (sftp exampleConfig))), (3, SftpEnd)],
      Some (3, Fulfilled (js ''a\<newline>b\<newline>c\<newline>d'')))"
    by (rule latest_A) (simp_all add: scenarioA_def)
  have s: "getLogFileStore scenarioA 0 (s3 exampleConfig) =
     ([(0, S3GetObject (js ''snapshots'') (js ''sftp.example.com//var/log/app.log''))],
      Some (1, Fulfilled (Some (js ''a\<newline>b\<newline>c''))))"
    by (simp add: scenarioA_def exampleConfig_def)
  have sp: "split NL (js ''d'') = [js ''d'']"
    by (simp add: js_def split_def NL_def)
  have p: "promiseAll2 (snd (getLogFileStore scenarioA 0 (s3 exampleConfig)))
     (snd (getLogFileLatest scenarioA 0 (sftp exampleConfig)))
     = Some (3, Fulfilled (Some (js ''a\<newline>b\<newline>c''), js ''a\<newline>b\<newline>c\<newline>d''))"
    unfolding l s by simp
  have d: "js ''d'' \<noteq> []" by (simp add: js_def)
  show ?thesis
    unfolding handler_stage2 [OF p] unfolding l s
    by (simp add: decide_def compare_A d saveToStore_def sendToPapertrail_def sp)
      (simp add: scenarioA_def exampleConfig_def)
qed

lemma latest_emptySnapshot:
  "getLogFileLatest emptySnapshot 0 c =
     ([(0, SftpConnect c), (1, SftpGet (sftpPath c)), (3, SftpEnd)],
      Some (3, Fulfilled (js ''a\<newline>b\<newline>c\<newline>d'')))"
  by (rule latest_A) (simp_all add: emptySnapshot_def scenarioA_def)

lemma latest_saveFails:
  "getLogFileLatest saveFails 0 c =
     ([(0, SftpConnect c), (1, SftpGet (sftpPath c)), (3, SftpEnd)],
      Some (3, Fulfilled (js ''a\<newline>b\<newline>c\<newline>d'')))"
  by (rule latest_A) (simp_all add: saveFails_def scenarioA_def)

lemma stage1_saveFails:
  "promiseAll2 (snd (getLogFileStore saveFails 0 (s3 exampleConfig)))
     (snd (getLogFileLatest saveFails 0 (sftp exampleConfig)))
     = Some (3, Fulfilled (Some (js ''a\<newline>b\<newline>c''), js ''a\<newline>b\<newline>c\<newline>d''))"
  unfolding latest_saveFails by (simp add: saveFails_def scenarioA_def)

lemma sendResult_saveFails:
  "sendResult (handler saveFails exampleConfig) =
     [Some (4, Rejected (Error (js ''AccessDenied''))), Some (8, Fulfilled ())]"
  unfolding handler_stage2 [OF stage1_saveFails]
  by (simp add: decide_def compare_A js_d_nonempty saveToStore_def sendToPapertrail_def
      saveFails_def scenarioA_def)

lemma callback_saveFails:
  "callback (handler saveFails exampleConfig) = Some (4, Failure (Error (js ''AccessDenied'')))"
  unfolding handler_stage2 [OF stage1_saveFails]
  by (simp add: decide_def compare_A js_d_nonempty saveToStore_def sendToPapertrail_def
      saveFails_def scenarioA_def)

lemma effects_saveFails:
  "effects (handler saveFails exampleConfig) =
     [(0, S3GetObject (bucket (s3 exampleConfig)) (s3Path (s3 exampleConfig))),
      (0, SftpConnect (sftp exampleConfig)),
      (1, SftpGet (sftpPath (sftp exampleConfig))),
      (3, SftpEnd),
      (3, S3PutObject (js ''a\<newline>b\<newline>c\<newline>d'') (bucket (s3 exampleConfig)) (s3Path (s3 exampleConfig))),
      (3, PapertrailTransport (papertrail exampleConfig)),
      (8, LoggerInfo (js ''d'')),
      (8, LoggerClose)]"
  unfolding handler_stage2 [OF stage1_saveFails] latest_saveFails
  by (simp add: decide_def compare_A js_d_nonempty saveToStore_def sendToPapertrail_def split_d
      saveFails_def scenarioA_def)

lemma latest_getFails:
  "getLogFileLatest getFails 0 c =
     ([(0, SftpConnect c), (1, SftpGet (sftpPath c))],
      Some (2, Rejected (Error (js ''No such file''))))"
  by (simp add: getLogFileLatest_def decrypt_def clientConnect_def clientGet_def
      getFails_def scenarioA_def)

section \<open>Claims about compareLogFiles\<close>

text \<open>
  C1. For a non-empty old snapshot, \<open>compareLogFiles\<close> returns the lines of the new
  snapshot whose exact text is no line of the old snapshot, joined with newline and
  trimmed. The emitted lines keep the order of the new snapshot (they are a subsequence
  of its lines), and every line occurs among them as often as it occurs in the new
  snapshot when it is no line of the old one, and not at all otherwise. The result is
  their join without a prefix and a suffix that consist of whitespace only, and it neither
  starts nor ends with whitespace.
\<close>

theorem compareLogFiles_new_lines:
  assumes "oldText \<noteq> []"
  shows "\<exists>difference pre post.
           difference = filter (\<lambda>line. line \<notin> set (split NL oldText)) (split NL newContents) \<and>
           subseq difference (split NL newContents) \<and>
           (\<forall>line. count_list difference line =
              (if line \<in> set (split NL oldText) then 0
               else count_list (split NL newContents) line)) \<and>
           compareLogFiles (Some oldText) newContents = trim (join [NL] difference) \<and>
           join [NL] difference = pre @ compareLogFiles (Some oldText) newContents @ post \<and>
           (\<forall>c\<in>set pre. isWhiteSpace c) \<and>
           (\<forall>c\<in>set post. isWhiteSpace c) \<and>
           (compareLogFiles (Some oldText) newContents \<noteq> [] \<longrightarrow>
              \<not> isWhiteSpace (hd (compareLogFiles (Some oldText) newContents)) \<and>
              \<not> isWhiteSpace (last (compareLogFiles (Some oldText) newContents)))"
proof -
  let ?difference = "filter (\<lambda>line. line \<notin> set (split NL oldText)) (split NL newContents)"
  have res: "compareLogFiles (Some oldText) newContents = trim (join [NL] ?difference)"
    using assms by (rule compareLogFiles_filter)
  obtain pre post where
    "join [NL] ?difference = pre @ trim (join [NL] ?difference) @ post"
    "\<forall>c\<in>set pre. isWhiteSpace c" "\<forall>c\<in>set post. isWhiteSpace c"
    using trim_decompose [of "join [NL] ?difference"] by blast
  moreover have "subseq ?difference (split NL newContents)"
    by simp
  moreover have "\<forall>line. count_list ?difference line =
      (if line \<in> set (split NL oldText) then 0 else count_list (split NL newContents) line)"
    by (simp add: count_list_filter)
  moreover have "trim (join [NL] ?difference) \<noteq> [] \<longrightarrow>
      \<not> isWhiteSpace (hd (trim (join [NL] ?difference))) \<and>
      \<not> isWhiteSpace (last (trim (join [NL] ?difference)))"
    using trim_first trim_last by blast
  ultimately show ?thesis
    unfolding res by blast
qed

text \<open>
  An instance of C1: old \<open>a, b, c\<close> and a new snapshot with the lines \<open>''\<close>, \<open>'  d'\<close>,
  \<open>'a'\<close>, \<open>'d'\<close>, \<open>'d '\<close>, \<open>''\<close> give \<open>'d\nd\nd'\<close>: the whitespace around the
  joined lines is gone.
\<close>

theorem compareLogFiles_new_lines_witness:
  "js ''a\<newline>b\<newline>c'' \<noteq> [] \<and>
   compareLogFiles (Some (js ''a\<newline>b\<newline>c'')) (js ''\<newline>  d\<newline>a\<newline>d\<newline>d \<newline>'')
     = js ''d\<newline>d\<newline>d''"
proof -
  have ne: "js ''a\<newline>b\<newline>c'' \<noteq> []"
    by (simp add: js_def)
  obtain difference where
    diff: "difference = filter (\<lambda>line. line \<notin> set (split NL (js ''a\<newline>b\<newline>c'')))
                 (split NL (js ''\<newline>  d\<newline>a\<newline>d\<newline>d \<newline>''))"
    and res: "compareLogFiles (Some (js ''a\<newline>b\<newline>c'')) (js ''\<newline>  d\<newline>a\<newline>d\<newline>d \<newline>'')
            = trim (join [NL] difference)"
    using compareLogFiles_new_lines [OF ne] by blast
  have "difference = [[], js ''  d'', js ''d'', js ''d '', []]"
    unfolding diff by (simp add: js_def split_def NL_def)
  then have "trim (join [NL] difference) = js ''d\<newline>d\<newline>d''"
    by (simp add: js_def NL_def trim_def isWhiteSpace_def)
  with res ne show ?thesis by simp
qed

text \<open>
  C4. With no old snapshot (\<open>undefined\<close>), \<open>compareLogFiles\<close> returns the empty string,
  whatever the new snapshot is.
\<close>

theorem compareLogFiles_absent: "compareLogFiles None newContents = []"
  by (simp add: compareLogFiles_def)

text \<open>
  C7, as claimed: an empty old snapshot takes the line-by-line branch, so that
  \<open>compareLogFiles( '', 'x' )\<close> is \<open>'x'\<close>. The code returns \<open>''\<close> there, although the
  line-by-line branch would have produced \<open>'x'\<close>.
\<close>

theorem compareLogFiles_empty_old_counterexample:
  "compareLogFiles (Some []) (js ''x'') \<noteq> js ''x'' \<and>
   trim (join [NL] (filter (\<lambda>line. line \<notin> set (split NL [])) (split NL (js ''x'')))) = js ''x''"
  by (simp add: compareLogFiles_def js_def split_def NL_def trim_def isWhiteSpace_def)

text \<open>
  C7, amended: the guard \<open>!oldContents\<close> does not tell an empty old snapshot from an
  absent one; for both the result is the empty string, whatever the new snapshot is.
\<close>

theorem compareLogFiles_empty_old:
  "compareLogFiles (Some []) newContents = [] \<and>
   compareLogFiles (Some []) newContents = compareLogFiles None newContents"
  by (simp add: compareLogFiles_def)

section \<open>Claims about the handler\<close>

text \<open>
  C2, amended. In a run that reaches the second stage at time \<open>t\<close> with the snapshots
  \<open>dataOld\<close> and \<open>dataNew\<close>, the handler makes exactly one \<open>s3.putObject\<close> request, for
  \<open>dataNew\<close>, if the new lines are non-empty or the old snapshot is absent or empty, and
  none otherwise; it creates exactly one Papertrail transport if the new lines are
  non-empty, and none otherwise.
\<close>

theorem handler_decides:
  assumes "getResult (handler w cfg) = (pOld, pNew)"
    and "promiseAll2 pOld pNew = Some (t, Fulfilled (dataOld, dataNew))"
  shows "requests isPut (handler w cfg) =
           (if compareLogFiles dataOld dataNew \<noteq> [] \<or> dataOld = None \<or> dataOld = Some []
            then [(t, S3PutObject dataNew (bucket (s3 cfg)) (s3Path (s3 cfg)))] else []) \<and>
         requests isTransport (handler w cfg) =
           (if compareLogFiles dataOld dataNew \<noteq> []
            then [(t, PapertrailTransport (papertrail cfg))] else [])"
proof -
  have p: "promiseAll2 (snd (getLogFileStore w 0 (s3 cfg))) (snd (getLogFileLatest w 0 (sftp cfg)))
             = Some (t, Fulfilled (dataOld, dataNew))"
    using assms by (simp add: getResult_handler)
  have falsy: "\<not> truthyStr dataOld \<longleftrightarrow> dataOld = None \<or> dataOld = Some []"
    by (cases dataOld) simp_all
  show ?thesis
    unfolding handler_stage2 [OF p] requests_def
    by (simp add: no_kind_getLogFileStore no_kind_getLogFileLatest decide_puts decide_transports
        falsy del: getLogFileStore.simps)
qed

text \<open>
  An instance of C2: in Scenario A the new snapshot is saved and the line \<open>d\<close> forwarded.
\<close>

theorem handler_decides_witness:
  "getResult (handler scenarioA exampleConfig) =
     (Some (1, Fulfilled (Some (js ''a\<newline>b\<newline>c''))), Some (3, Fulfilled (js ''a\<newline>b\<newline>c\<newline>d''))) \<and>
   promiseAll2 (Some (1, Fulfilled (Some (js ''a\<newline>b\<newline>c'')))) (Some (3, Fulfilled (js ''a\<newline>b\<newline>c\<newline>d'')))
     = Some (3, Fulfilled (Some (js ''a\<newline>b\<newline>c''), js ''a\<newline>b\<newline>c\<newline>d'')) \<and>
   requests isPut (handler scenarioA exampleConfig) =
     [(3, S3PutObject (js ''a\<newline>b\<newline>c\<newline>d'') (bucket (s3 exampleConfig)) (s3Path (s3 exampleConfig)))] \<and>
   requests isTransport (handler scenarioA exampleConfig) =
     [(3, PapertrailTransport (papertrail exampleConfig))]"
proof -
  have gr: "getResult (handler scenarioA exampleConfig) =
     (Some (1, Fulfilled (Some (js ''a\<newline>b\<newline>c''))), Some (3, Fulfilled (js ''a\<newline>b\<newline>c\<newline>d'')))"
    by (simp add: handler_A)
  have pa: "promiseAll2 (Some (1, Fulfilled (Some (js ''a\<newline>b\<newline>c'')))) (Some (3, Fulfilled (js ''a\<newline>b\<newline>c\<newline>d'')))
     = Some (3, Fulfilled (Some (js ''a\<newline>b\<newline>c''), js ''a\<newline>b\<newline>c\<newline>d''))"
    by simp
  have d: "compareLogFiles (Some (js ''a\<newline>b\<newline>c'')) (js ''a\<newline>b\<newline>c\<newline>d'') \<noteq> []"
    unfolding compare_A by (simp add: js_def)
  show ?thesis
    using handler_decides [OF gr pa] gr pa d by simp
qed

text \<open>
  C2, as claimed: the snapshot is saved if and only if the new lines are non-empty or no
  old snapshot was obtained. With an empty stored snapshot the second stage is reached
  with an old snapshot, the new lines are empty, and the snapshot is saved all the same.
\<close>

theorem handler_decides_counterexample:
  "getResult (handler emptySnapshot exampleConfig) =
     (Some (1, Fulfilled (Some [])), Some (3, Fulfilled (js ''a\<newline>b\<newline>c\<newline>d''))) \<and>
   promiseAll2 (Some (1, Fulfilled (Some []))) (Some (3, Fulfilled (js ''a\<newline>b\<newline>c\<newline>d'')))
     = Some (3, Fulfilled (Some [], js ''a\<newline>b\<newline>c\<newline>d'')) \<and>
   \<not> (requests isPut (handler emptySnapshot exampleConfig) \<noteq> [] \<longleftrightarrow>
        compareLogFiles (Some []) (js ''a\<newline>b\<newline>c\<newline>d'') \<noteq> [] \<or> Some [] = (None :: jsstring option))"
proof -
  have s: "getLogFileStore emptySnapshot 0 c = ([(0, S3GetObject (bucket c) (s3Path c))], Some (1, Fulfilled (Some [])))" for c
    by (simp add: emptySnapshot_def scenarioA_def)
  have p: "promiseAll2 (snd (getLogFileStore emptySnapshot 0 (s3 exampleConfig)))
     (snd (getLogFileLatest emptySnapshot 0 (sftp exampleConfig)))
     = Some (3, Fulfilled (Some [], js ''a\<newline>b\<newline>c\<newline>d''))"
    unfolding s latest_emptySnapshot by simp
  have "requests isPut (handler emptySnapshot exampleConfig) \<noteq> []"
    unfolding requests_isPut_stage2 [OF p] by simp
  moreover have "compareLogFiles (Some []) (js ''a\<newline>b\<newline>c\<newline>d'') = []"
    by (simp add: compareLogFiles_def)
  ultimately show ?thesis
    unfolding getResult_handler s latest_emptySnapshot by simp
qed

text \<open>
  C3, amended. When both the save and the forwarding have been started and at least one
  of them is rejected, \<open>callback\<close> is invoked with an error at the time of the earliest
  rejection and with the error of a rejection of that time; it does not wait for the
  other operation.
\<close>

theorem first_failure_reported:
  assumes "sendResult (handler w cfg) = [pSave, pForward]"
    and "(\<exists>t e. pSave = Some (t, Rejected e)) \<or> (\<exists>t e. pForward = Some (t, Rejected e))"
  shows "\<exists>tf err. callback (handler w cfg) = Some (tf, Failure err) \<and>
           (pSave = Some (tf, Rejected err) \<or> pForward = Some (tf, Rejected err)) \<and>
           (\<forall>t e. pSave = Some (t, Rejected e) \<or> pForward = Some (t, Rejected e) \<longrightarrow> tf \<le> t)"
proof -
  from sendResult_cases [of w cfg] assms(1) obtain t0 where
    cb: "callback (handler w cfg) = onSettled (promiseAll t0 [pSave, pForward])"
    by auto
  from promiseAll_pair_rejected [OF assms(2), of t0] obtain tf err where
    "promiseAll t0 [pSave, pForward] = Some (tf, Rejected err)"
    "pSave = Some (tf, Rejected err) \<or> pForward = Some (tf, Rejected err)"
    "\<forall>t e. pSave = Some (t, Rejected e) \<or> pForward = Some (t, Rejected e) \<longrightarrow> tf \<le> t"
    by blast
  then show ?thesis
    using cb by (intro exI [of _ tf] exI [of _ err]) simp
qed

text \<open>
  An instance of C3: the save is rejected at time 4 and the failure is reported at time 4.
\<close>

theorem first_failure_reported_witness:
  "sendResult (handler saveFails exampleConfig) =
     [Some (4, Rejected (Error (js ''AccessDenied''))), Some (8, Fulfilled ())] \<and>
   callback (handler saveFails exampleConfig) = Some (4, Failure (Error (js ''AccessDenied'')))"
proof -
  have rej: "(\<exists>t e. Some (4, Rejected (Error (js ''AccessDenied''))) = Some (t, Rejected e :: unit settlement)) \<or>
     (\<exists>t e. Some (8, Fulfilled ()) = Some (t, Rejected e))"
    by simp
  from first_failure_reported [OF sendResult_saveFails rej]
  show ?thesis
    using sendResult_saveFails by auto
qed

text \<open>
  C3, as claimed: the handler waits for both operations to settle before it reports the
  failure. Here the save is rejected at time 4 and \<open>callback\<close> is invoked at time 4,
  while the forwarding settles, and logs its line, only at time 8.
\<close>

theorem waits_for_both_counterexample:
  "sendResult (handler saveFails exampleConfig) =
     [Some (4, Rejected (Error (js ''AccessDenied''))), Some (8, Fulfilled ())] \<and>
   callback (handler saveFails exampleConfig) = Some (4, Failure (Error (js ''AccessDenied''))) \<and>
   (8, LoggerInfo (js ''d'')) \<in> set (effects (handler saveFails exampleConfig)) \<and>
   \<not> (8 :: time) \<le> 4"
  by (simp add: sendResult_saveFails callback_saveFails effects_saveFails)

text \<open>
  C5. The claim is that whenever the remote log fetch fails, the run reports that error.
  When the transfer fails after \<open>client.get\<close> has delivered the stream, \<open>'end'\<close> is
  never emitted and the stream has no other handler: the promise of \<open>getLogFileLatest\<close>
  never settles and \<open>callback\<close> is never invoked. Nothing is saved or forwarded.
\<close>

theorem transfer_error_never_reported:
  "getLogFileLatest transferFails 0 (sftp exampleConfig) =
     ([(0, SftpConnect (sftp exampleConfig)), (1, SftpGet (sftpPath (sftp exampleConfig)))], None) \<and>
   callback (handler transferFails exampleConfig) = None \<and>
   sendResult (handler transferFails exampleConfig) = [] \<and>
   requests isPut (handler transferFails exampleConfig) = [] \<and>
   requests isTransport (handler transferFails exampleConfig) = []"
proof -
  have l: "getLogFileLatest transferFails 0 (sftp exampleConfig) =
     ([(0, SftpConnect (sftp exampleConfig)), (0 + 1, SftpGet (sftpPath (sftp exampleConfig)))], None)"
    by (rule stream_without_end_never_settles) (simp_all add: transferFails_def scenarioA_def)
  then have "snd (getLogFileLatest transferFails 0 (sftp exampleConfig)) = None"
    by simp
  from fetch_pending_never_reported [OF this] l show ?thesis
    by simp
qed

text \<open>
  C6. On every error of \<open>s3.getObject\<close>, \<open>getLogFileStore\<close> warns about the error and
  resolves with \<open>undefined\<close>; it is never rejected, in any world. The run goes on: once
  the remote file has been fetched, it is saved and nothing is forwarded, and when the save
  succeeds the run ends with success and the store holds the fetched contents.
\<close>

theorem store_read_error_resolves_absent:
  assumes "s3GetObject w = Some (d, Inl err)"
  shows "getLogFileStore w t c =
           ([(t, S3GetObject (bucket c) (s3Path c)), (t + d, ConsoleWarn err)],
            Some (t + d, Fulfilled None)) \<and>
         (\<forall>w' t' e'. snd (getLogFileStore w' t c) \<noteq> Some (t', Rejected e')) \<and>
         (\<forall>t2 contents. snd (getLogFileLatest w 0 (sftp cfg)) = Some (t2, Fulfilled contents) \<longrightarrow>
            requests isPut (handler w cfg) =
              [(max d t2, S3PutObject contents (bucket (s3 cfg)) (s3Path (s3 cfg)))] \<and>
            requests isTransport (handler w cfg) = [] \<and>
            (\<forall>d3. s3PutObject w = Some (d3, Inr ()) \<longrightarrow>
               callback (handler w cfg) = Some (max d t2 + d3, Success [()]) \<and>
               storeAfter w (handler w cfg) st (bucket (s3 cfg), s3Path (s3 cfg)) = Some contents))"
proof (intro conjI allI impI)
  show "getLogFileStore w t c =
           ([(t, S3GetObject (bucket c) (s3Path c)), (t + d, ConsoleWarn err)],
            Some (t + d, Fulfilled None))"
    using assms by (rule getLogFileStore_error)
next
  fix w' t' e'
  show "snd (getLogFileStore w' t c) \<noteq> Some (t', Rejected e')"
    by (rule getLogFileStore_never_rejected)
next
  fix t2 contents
  assume latest: "snd (getLogFileLatest w 0 (sftp cfg)) = Some (t2, Fulfilled contents)"
  have p: "promiseAll2 (snd (getLogFileStore w 0 (s3 cfg))) (snd (getLogFileLatest w 0 (sftp cfg)))
             = Some (max d t2, Fulfilled (None, contents))"
    unfolding getLogFileStore_error [OF assms] latest by simp
  show "requests isPut (handler w cfg) =
          [(max d t2, S3PutObject contents (bucket (s3 cfg)) (s3Path (s3 cfg)))]"
    unfolding requests_isPut_stage2 [OF p] by simp
  show "requests isTransport (handler w cfg) = []"
    unfolding requests_isTransport_stage2 [OF p] by (simp add: compareLogFiles_def)
  fix d3
  assume put: "s3PutObject w = Some (d3, Inr ())"
  have dec: "decide w cfg (max d t2) None contents =
      [([(max d t2, S3PutObject contents (bucket (s3 cfg)) (s3Path (s3 cfg)))],
        Some (max d t2 + d3, Fulfilled ()))]"
    by (simp add: decide_def compareLogFiles_def saveToStore_def put)
  show "callback (handler w cfg) = Some (max d t2 + d3, Success [()])"
    unfolding handler_stage2 [OF p] dec by simp
  show "storeAfter w (handler w cfg) st (bucket (s3 cfg), s3Path (s3 cfg)) = Some contents"
    unfolding storeAfter_stage2 [OF p] dec by (simp add: put)
qed

text \<open>
  An instance of C6: the snapshot does not exist yet.
\<close>

theorem store_read_error_resolves_absent_witness:
  "s3GetObject storeReadFails = Some (1, Inl (Error (js ''NoSuchKey''))) \<and>
   getLogFileStore storeReadFails 0 (s3 exampleConfig) =
     ([(0, S3GetObject (bucket (s3 exampleConfig)) (s3Path (s3 exampleConfig))),
       (1, ConsoleWarn (Error (js ''NoSuchKey'')))],
      Some (1, Fulfilled None)) \<and>
   snd (getLogFileLatest storeReadFails 0 (sftp exampleConfig))
     = Some (3, Fulfilled (js ''a\<newline>b\<newline>c\<newline>d'')) \<and>
   s3PutObject storeReadFails = Some (2, Inr ()) \<and>
   requests isPut (handler storeReadFails exampleConfig) =
     [(3, S3PutObject (js ''a\<newline>b\<newline>c\<newline>d'') (bucket (s3 exampleConfig)) (s3Path (s3 exampleConfig)))] \<and>
   requests isTransport (handler storeReadFails exampleConfig) = [] \<and>
   callback (handler storeReadFails exampleConfig) = Some (5, Success [()]) \<and>
   storeAfter storeReadFails (handler storeReadFails exampleConfig) Map.empty
     (bucket (s3 exampleConfig), s3Path (s3 exampleConfig)) = Some (js ''a\<newline>b\<newline>c\<newline>d'')"
proof -
  have a: "s3GetObject storeReadFails = Some (1, Inl (Error (js ''NoSuchKey'')))"
    by (simp add: storeReadFails_def)
  have l: "getLogFileLatest storeReadFails 0 c =
     ([(0, SftpConnect c), (1, SftpGet (sftpPath c)), (3, SftpEnd)],
      Some (3, Fulfilled (js ''a\<newline>b\<newline>c\<newline>d'')))" for c
    by (rule latest_A) (simp_all add: storeReadFails_def scenarioA_def)
  have b: "snd (getLogFileLatest storeReadFails 0 (sftp exampleConfig))
     = Some (3, Fulfilled (js ''a\<newline>b\<newline>c\<newline>d''))"
    by (simp add: l)
  have c: "s3PutObject storeReadFails = Some (2, Inr ())"
    by (simp add: storeReadFails_def scenarioA_def)
  note inst = store_read_error_resolves_absent [OF a, of 0 "s3 exampleConfig" exampleConfig Map.empty]
  from inst have 1: "getLogFileStore storeReadFails 0 (s3 exampleConfig) =
     ([(0, S3GetObject (bucket (s3 exampleConfig)) (s3Path (s3 exampleConfig))),
       (1, ConsoleWarn (Error (js ''NoSuchKey'')))],
      Some (1, Fulfilled None))"
    by simp
  from inst b have 2: "requests isPut (handler storeReadFails exampleConfig) =
     [(max 1 3, S3PutObject (js ''a\<newline>b\<newline>c\<newline>d'') (bucket (s3 exampleConfig)) (s3Path (s3 exampleConfig)))]"
    and 3: "requests isTransport (handler storeReadFails exampleConfig) = []"
    by blast+
  from inst b c have 4: "callback (handler storeReadFails exampleConfig) = Some (max 1 3 + 2, Success [()])"
    and 5: "storeAfter storeReadFails (handler storeReadFails exampleConfig) Map.empty
     (bucket (s3 exampleConfig), s3Path (s3 exampleConfig)) = Some (js ''a\<newline>b\<newline>c\<newline>d'')"
    by blast+
  from a b c 1 2 3 4 5 show ?thesis by simp
qed

text \<open>
  C8, amended. When \<open>kms.decrypt\<close> fails, \<open>callback\<close> is invoked with that error at the
  time of the failure. No SFTP request is made, nothing is saved or forwarded and the
  snapshot store is unchanged; but \<open>s3.getObject\<close> has been requested, at time 0, since
  \<open>getLogFileStore\<close> is called before \<open>getLogFileLatest\<close>.
\<close>

theorem decrypt_failure_aborts:
  assumes "isLambda w" and "kmsDecrypt w = Some (d, Inl err)"
  shows "callback (handler w cfg) = Some (d, Failure err) \<and>
         effects (handler w cfg) =
           fst (getLogFileStore w 0 (s3 cfg)) @ [(0, KmsDecrypt (password (sftp cfg)))] \<and>
         requests isGetObject (handler w cfg) =
           [(0, S3GetObject (bucket (s3 cfg)) (s3Path (s3 cfg)))] \<and>
         requests isSftp (handler w cfg) = [] \<and>
         requests isPut (handler w cfg) = [] \<and>
         requests isTransport (handler w cfg) = [] \<and>
         storeAfter w (handler w cfg) st = st"
proof -
  have l: "getLogFileLatest w 0 (sftp cfg) =
      ([(0, KmsDecrypt (password (sftp cfg)))], Some (d, Rejected err))"
    using latest_decrypt_fails [OF assms, of 0] by simp
  have p: "promiseAll2 (snd (getLogFileStore w 0 (s3 cfg))) (snd (getLogFileLatest w 0 (sftp cfg)))
             = Some (d, Rejected err)"
    unfolding l snd_conv by (rule promiseAll2_rejected_right) (rule getLogFileStore_outcome)
  have puts: "filter (\<lambda>(t, e). isPut e)
      (fst (getLogFileStore w 0 (s3 cfg)) @ [(0, KmsDecrypt (password (sftp cfg)))]) = []"
    by (simp add: no_kind_getLogFileStore del: getLogFileStore.simps)
  show ?thesis
    unfolding handler_stage1_rejected [OF p] requests_def storeAfter_def l
    by (simp add: no_kind_getLogFileStore isGetObject_getLogFileStore
        foldl_applyEffect_no_put [OF puts] del: getLogFileStore.simps foldl_append)
qed

text \<open>
  An instance of C8: decryption fails at time 2.
\<close>

theorem decrypt_failure_aborts_witness:
  "isLambda decryptFails \<and>
   kmsDecrypt decryptFails = Some (2, Inl (Error (js ''InvalidCiphertextException''))) \<and>
   callback (handler decryptFails exampleConfig) =
     Some (2, Failure (Error (js ''InvalidCiphertextException''))) \<and>
   requests isSftp (handler decryptFails exampleConfig) = [] \<and>
   requests isPut (handler decryptFails exampleConfig) = []"
proof -
  have a: "isLambda decryptFails"
    by (simp add: decryptFails_def)
  have b: "kmsDecrypt decryptFails = Some (2, Inl (Error (js ''InvalidCiphertextException'')))"
    by (simp add: decryptFails_def)
  from decrypt_failure_aborts [OF a b, of exampleConfig] a b
  show ?thesis by simp
qed

text \<open>
  C8, as claimed: when decryption fails, the snapshot-store fetch is not issued. Here
  decryption fails at time 2 and \<open>s3.getObject\<close> has been requested at time 0.
\<close>

theorem store_fetch_before_decrypt_counterexample:
  "isLambda decryptFails \<and>
   kmsDecrypt decryptFails = Some (2, Inl (Error (js ''InvalidCiphertextException''))) \<and>
   effects (handler decryptFails exampleConfig) =
     [(0, S3GetObject (bucket (s3 exampleConfig)) (s3Path (s3 exampleConfig))),
      (0, KmsDecrypt (password (sftp exampleConfig)))] \<and>
   callback (handler decryptFails exampleConfig) =
     Some (2, Failure (Error (js ''InvalidCiphertextException''))) \<and>
   requests isGetObject (handler decryptFails exampleConfig) \<noteq> []"
proof -
  have l: "getLogFileLatest decryptFails 0 c =
      ([(0, KmsDecrypt (password c))], Some (2, Rejected (Error (js ''InvalidCiphertextException''))))" for c
    by (simp add: getLogFileLatest_def decrypt_def decryptFails_def scenarioA_def)
  have s: "getLogFileStore decryptFails 0 c =
      ([(0, S3GetObject (bucket c) (s3Path c))], Some (1, Fulfilled (Some (js ''a\<newline>b\<newline>c''))))" for c
    by (simp add: decryptFails_def scenarioA_def)
  have p: "promiseAll2 (snd (getLogFileStore decryptFails 0 (s3 exampleConfig)))
      (snd (getLogFileLatest decryptFails 0 (sftp exampleConfig)))
      = Some (2, Rejected (Error (js ''InvalidCiphertextException'')))"
    unfolding l s by simp
  show ?thesis
    unfolding handler_stage1_rejected [OF p] requests_def l s
    by (simp add: decryptFails_def scenarioA_def)
qed

text \<open>
  C9. The claim is that the SFTP session is ended on every exit path of
  \<open>getLogFileLatest\<close>. When \<open>client.connect\<close> succeeds and \<open>client.get\<close> fails, the
  promise is rejected and \<open>client.end\<close> is never called: it is called by the \<open>'end'\<close>
  handler of the stream only.
\<close>

theorem session_left_open_on_get_error:
  "getLogFileLatest getFails 0 (sftp exampleConfig) =
     ([(0, SftpConnect (sftp exampleConfig)), (1, SftpGet (sftpPath (sftp exampleConfig)))],
      Some (2, Rejected (Error (js ''No such file'')))) \<and>
   (0, SftpConnect (sftp exampleConfig)) \<in> set (fst (getLogFileLatest getFails 0 (sftp exampleConfig))) \<and>
   (\<forall>t. (t, SftpEnd) \<notin> set (fst (getLogFileLatest getFails 0 (sftp exampleConfig))))"
  by (simp add: latest_getFails)

section \<open>Claims about getEnv\<close>

text \<open>
  C10, amended. For a name under which \<open>process.env\<close> inherits nothing from its
  prototype, as for every name that the program reads, \<open>getEnv\<close> returns the value of
  the environment variable exactly when that value is a non-empty string. An unset
  variable and one set to the empty string give the same result: the default when the
  default is truthy, and otherwise the error \<open>'Please set ' + envName + '.'\<close>. So
  \<open>getEnv\<close> throws if and only if both the variable and the default are falsy.
\<close>

theorem getEnv_cases:
  assumes "inherited penv envName = Undefined"
  shows "(\<forall>v. variables penv envName = Some v \<and> v \<noteq> [] \<longrightarrow>
            getEnv penv envName defaultValue = Inr (Str v)) \<and>
         (\<not> truthyStr (variables penv envName) \<and> truthy defaultValue \<longrightarrow>
            getEnv penv envName defaultValue = Inr defaultValue) \<and>
         (\<not> truthyStr (variables penv envName) \<and> \<not> truthy defaultValue \<longrightarrow>
            getEnv penv envName defaultValue =
              Inl (Error (js ''Please set '' @ envName @ js ''.''))) \<and>
         ((\<exists>e. getEnv penv envName defaultValue = Inl e) \<longleftrightarrow>
            \<not> truthyStr (variables penv envName) \<and> \<not> truthy defaultValue) \<and>
         getEnv (penv\<lparr>variables := (variables penv)(envName := None)\<rparr>) envName defaultValue =
           getEnv (penv\<lparr>variables := (variables penv)(envName \<mapsto> [])\<rparr>) envName defaultValue"
proof -
  have own: "truthy (readEnv penv envName) = truthyStr (variables penv envName)"
    using assms by (rule readEnv_own)
  have val: "variables penv envName = Some v \<Longrightarrow> readEnv penv envName = Str v" for v
    by (simp add: readEnv_def)
  have unset: "readEnv (penv\<lparr>variables := (variables penv)(envName := None)\<rparr>) envName = Undefined"
    using assms by (simp add: readEnv_def)
  have empty: "readEnv (penv\<lparr>variables := (variables penv)(envName \<mapsto> [])\<rparr>) envName = Str []"
    by (simp add: readEnv_def)
  show ?thesis
    unfolding getEnv_def own unset empty
    by (auto simp: val)
qed

text \<open>
  Instances of C10: a set port, an empty port with the default 22, and an unset host.
\<close>

theorem getEnv_cases_witness:
  "inherited (nodeEnv [js ''STP_SFTP_PORT'' \<mapsto> js ''2222'']) (js ''STP_SFTP_PORT'') = Undefined \<and>
   getEnv (nodeEnv [js ''STP_SFTP_PORT'' \<mapsto> js ''2222'']) (js ''STP_SFTP_PORT'') (Num 22)
     = Inr (Str (js ''2222'')) \<and>
   getEnv (nodeEnv [js ''STP_SFTP_PORT'' \<mapsto> []]) (js ''STP_SFTP_PORT'') (Num 22) = Inr (Num 22) \<and>
   getEnv (nodeEnv Map.empty) (js ''STP_SFTP_HOST'') Undefined
     = Inl (Error (js ''Please set '' @ js ''STP_SFTP_HOST'' @ js ''.''))"
proof -
  have i1: "inherited (nodeEnv vars) (js ''STP_SFTP_PORT'') = Undefined" for vars
    by (simp add: nodeEnv_def not_inherited_STP)
  have i2: "inherited (nodeEnv vars) (js ''STP_SFTP_HOST'') = Undefined" for vars
    by (simp add: nodeEnv_def not_inherited_STP)
  have set_port: "variables (nodeEnv [js ''STP_SFTP_PORT'' \<mapsto> js ''2222'']) (js ''STP_SFTP_PORT'')
      = Some (js ''2222'') \<and> js ''2222'' \<noteq> []"
    by (simp add: nodeEnv_def js_def)
  have c1: "getEnv (nodeEnv [js ''STP_SFTP_PORT'' \<mapsto> js ''2222'']) (js ''STP_SFTP_PORT'') (Num 22)
      = Inr (Str (js ''2222''))"
    using getEnv_cases [OF i1, of "[js ''STP_SFTP_PORT'' \<mapsto> js ''2222'']" "Num 22", THEN conjunct1]
      set_port by blast
  have empty_port: "\<not> truthyStr (variables (nodeEnv [js ''STP_SFTP_PORT'' \<mapsto> []]) (js ''STP_SFTP_PORT''))
      \<and> truthy (Num 22)"
    by (simp add: nodeEnv_def)
  have c2: "getEnv (nodeEnv [js ''STP_SFTP_PORT'' \<mapsto> []]) (js ''STP_SFTP_PORT'') (Num 22) = Inr (Num 22)"
    using getEnv_cases [OF i1, of "[js ''STP_SFTP_PORT'' \<mapsto> []]" "Num 22",
        THEN conjunct2, THEN conjunct1] empty_port by blast
  have unset_host: "\<not> truthyStr (variables (nodeEnv Map.empty) (js ''STP_SFTP_HOST'')) \<and> \<not> truthy Undefined"
    by (simp add: nodeEnv_def)
  have c3: "getEnv (nodeEnv Map.empty) (js ''STP_SFTP_HOST'') Undefined
      = Inl (Error (js ''Please set '' @ js ''STP_SFTP_HOST'' @ js ''.''))"
    using getEnv_cases [OF i2, of Map.empty Undefined,
        THEN conjunct2, THEN conjunct2, THEN conjunct1] unset_host by blast
  from i1 c1 c2 c3 show ?thesis by blast
qed

text \<open>
  C10, as claimed: for every name, an unset variable is treated as an empty one, and
  \<open>getEnv\<close> throws when the variable and the default are falsy. With no variable
  \<open>toString\<close> set, \<open>getEnv\<close> returns the function inherited from \<open>Object.prototype\<close>,
  whatever the default; with the variable set to the empty string it returns the default
  or throws.
\<close>

theorem getEnv_inherited_counterexample:
  "variables (nodeEnv Map.empty) (js ''toString'') = None \<and>
   getEnv (nodeEnv Map.empty) (js ''toString'') Undefined = Inr (Inherited (js ''toString'')) \<and>
   getEnv (nodeEnv Map.empty) (js ''toString'') (Num 22) = Inr (Inherited (js ''toString'')) \<and>
   getEnv (nodeEnv [js ''toString'' \<mapsto> []]) (js ''toString'') (Num 22) = Inr (Num 22) \<and>
   getEnv (nodeEnv [js ''toString'' \<mapsto> []]) (js ''toString'') Undefined
     = Inl (Error (js ''Please set '' @ js ''toString'' @ js ''.''))"
  by (simp add: getEnv_def readEnv_def nodeEnv_def inherited_toString)

end
